theory Spec2Isabelle
  imports Main "HOL-Library.AList"
begin

section \<open>log4mongo: the formatter and the Mongo handlers of \<^verbatim>\<open>log4mongo/handlers.py\<close>\<close>

subsection \<open>Python values, documents and exceptions\<close>

text \<open>
  The values a log record or a BSON document holds. \<open>PObj\<close> stands for an object the
  handlers never look into (a float, a traceback, an exception class); \<open>PDatetime\<close> is
  a \<^verbatim>\<open>datetime\<close>. A Python \<^verbatim>\<open>dict\<close> with string keys is an association list: the order is
  the insertion order, \<^verbatim>\<open>d[k] = v\<close> is \<open>AList.update k v d\<close> (replace in place, or
  append), and \<^verbatim>\<open>d[k]\<close> is \<open>map_of d k\<close>, where \<open>None\<close> is Python's \<^verbatim>\<open>KeyError\<close>.
\<close>

datatype pyval =
    PNone
  | PBool bool
  | PInt int
  | PStr string
  | PDatetime nat
  | PTuple "pyval list"
  | PDict "(string \<times> pyval) list"
  | PObj string

type_synonym document = "(string \<times> pyval) list"

text \<open>
  The exceptions: \<open>KeyError k\<close> is raised by \<^verbatim>\<open>d[k]\<close> on a missing key, \<open>IndexError\<close> by
  an index out of range, \<open>TypeError\<close> by \<^verbatim>\<open>x[i]\<close> on an object without item access, and
  \<open>WriteError s\<close> is any \<^verbatim>\<open>Exception\<close> the storage collaborator raises (\<open>s\<close> its text).
  A function that can raise returns \<open>Inl\<close> the exception, \<open>Inr\<close> its value otherwise.
\<close>

datatype pyexn = KeyError string | IndexError string | TypeError string | WriteError string

text \<open>
  \<^verbatim>\<open>x[1]\<close>: the second item of a tuple or a string, \<^verbatim>\<open>KeyError\<close> on a dictionary (its
  keys are strings), \<^verbatim>\<open>TypeError\<close> on \<^verbatim>\<open>None\<close>, a boolean, a number, a datetime and
  the objects \<open>PObj\<close> stands for.
\<close>

fun subscript1 :: "pyval \<Rightarrow> pyexn + pyval" where
  "subscript1 (PTuple (a # b # rest)) = Inr b"
| "subscript1 (PTuple xs) = Inl (IndexError ''tuple index out of range'')"
| "subscript1 (PStr (a # b # rest)) = Inr (PStr [b])"
| "subscript1 (PStr s) = Inl (IndexError ''string index out of range'')"
| "subscript1 (PDict d) = Inl (KeyError ''1'')"
| "subscript1 v = Inl (TypeError ''object is not subscriptable'')"

subsection \<open>Log records\<close>

text \<open>
  \<^verbatim>\<open>logging.LogRecord\<close>: the attributes its constructor sets (CPython 3.6 to 3.11, in
  the order of \<^verbatim>\<open>__init__\<close>), and \<open>extra\<close>, the further entries of the record's
  \<^verbatim>\<open>__dict__\<close> (what \<^verbatim>\<open>logger.info(..., extra={...})\<close> or an assignment adds).
  \<open>exc_info\<close> is whatever the caller gave: \<^verbatim>\<open>None\<close>, the triple (type, value, traceback)
  as \<open>PTuple [t, v, tb]\<close>, or any other value (\<^verbatim>\<open>Logger._log\<close> stores a false value such
  as \<^verbatim>\<open>False\<close>, \<^verbatim>\<open>0\<close> or \<^verbatim>\<open>()\<close> unchanged).
\<close>

record LogRecord =
  name :: string
  msg :: pyval
  args :: pyval
  levelname :: string
  levelno :: int
  pathname :: string
  filename :: string
  module :: string
  exc_info :: pyval
  exc_text :: pyval
  stack_info :: pyval
  lineno :: int
  funcName :: string
  created :: pyval
  msecs :: pyval
  relativeCreated :: pyval
  thread :: pyval
  threadName :: pyval
  processName :: pyval
  process :: pyval
  extra :: "(string \<times> pyval) list"

text \<open>\<^verbatim>\<open>record.__dict__\<close>: the constructor's attributes, then the extras.\<close>

definition LogRecord_dict :: "LogRecord \<Rightarrow> (string \<times> pyval) list" where
  "LogRecord_dict r =
     [(''name'', PStr (name r)),
      (''msg'', msg r),
      (''args'', args r),
      (''levelname'', PStr (levelname r)),
      (''levelno'', PInt (levelno r)),
      (''pathname'', PStr (pathname r)),
      (''filename'', PStr (filename r)),
      (''module'', PStr (module r)),
      (''exc_info'', exc_info r),
      (''exc_text'', exc_text r),
      (''stack_info'', stack_info r),
      (''lineno'', PInt (lineno r)),
      (''funcName'', PStr (funcName r)),
      (''created'', created r),
      (''msecs'', msecs r),
      (''relativeCreated'', relativeCreated r),
      (''thread'', thread r),
      (''threadName'', threadName r),
      (''processName'', processName r),
      (''process'', process r)]
     @ extra r"

text \<open>
  A record's \<^verbatim>\<open>__dict__\<close> is a dictionary: the extras have distinct names, and none is the
  name of a constructor attribute (assigning to such a name changes the attribute).
\<close>

definition std_attrs :: "string list" where
  "std_attrs =
     [''name'', ''msg'', ''args'', ''levelname'', ''levelno'', ''pathname'', ''filename'',
      ''module'', ''exc_info'', ''exc_text'', ''stack_info'', ''lineno'', ''funcName'',
      ''created'', ''msecs'', ''relativeCreated'', ''thread'', ''threadName'',
      ''processName'', ''process'']"

definition wf_record :: "LogRecord \<Rightarrow> bool" where
  "wf_record r =
     (distinct (map fst (extra r)) \<and> list_all (\<lambda>k. k \<notin> set std_attrs) (map fst (extra r)))"

subsection \<open>The library functions the formatter calls\<close>

text \<open>
  The standard library and the storage driver are not part of the repository; they are
  parameters of the model. \<open>getMessage\<close> is \<^verbatim>\<open>LogRecord.getMessage\<close>, \<open>formatException\<close>
  is \<^verbatim>\<open>logging.Formatter.formatException\<close>, \<open>py_str\<close> is \<^verbatim>\<open>str\<close>. They are taken to
  return; what raises in the model is the repository's own code.
\<close>

record pylib =
  getMessage :: "LogRecord \<Rightarrow> string"
  formatException :: "pyval \<Rightarrow> string"
  py_str :: "pyval \<Rightarrow> string"

subsection \<open>MongoFormatter\<close>

text \<open>
  \<^verbatim>\<open>DEFAULT_PROPERTIES = logging.LogRecord('', '', '', '', '', '', '', '').__dict__.keys()\<close>:
  the attribute names of a record without extras.
\<close>

definition empty_LogRecord :: LogRecord where
  "empty_LogRecord =
     \<lparr> name = '''', msg = PStr '''', args = PStr '''', levelname = ''Level '', levelno = 0,
       pathname = '''', filename = '''', module = '''', exc_info = PStr '''', exc_text = PNone,
       stack_info = PNone, lineno = 0, funcName = '''', created = PObj ''float'',
       msecs = PObj ''float'', relativeCreated = PObj ''float'', thread = PObj ''ident'',
       threadName = PStr ''MainThread'', processName = PStr ''MainProcess'',
       process = PObj ''pid'', extra = [] \<rparr>"

definition DEFAULT_PROPERTIES :: "string list" where
  "DEFAULT_PROPERTIES = map fst (LogRecord_dict empty_LogRecord)"

text \<open>The standard document of \<^verbatim>\<open>format\<close> (lines 45 to 56); \<open>now\<close> is \<^verbatim>\<open>datetime.utcnow()\<close>.\<close>

definition standard_document :: "pylib \<Rightarrow> pyval \<Rightarrow> LogRecord \<Rightarrow> document" where
  "standard_document lib now r =
     [(''timestamp'', now),
      (''level'', PStr (levelname r)),
      (''thread'', thread r),
      (''threadName'', threadName r),
      (''message'', PStr (getMessage lib r)),
      (''loggerName'', PStr (name r)),
      (''fileName'', PStr (pathname r)),
      (''module'', PStr (module r)),
      (''method'', PStr (funcName r)),
      (''lineNumber'', PInt (lineno r))]"

text \<open>
  The nested exception object (lines 60 to 64) of the record's \<^verbatim>\<open>exc_info\<close>, given the
  value \<open>v\<close> of \<^verbatim>\<open>record.exc_info[1]\<close>.
\<close>

definition exception_document :: "pylib \<Rightarrow> pyval \<Rightarrow> pyval \<Rightarrow> pyval" where
  "exception_document lib ei v =
     PDict [(''message'', PStr (py_str lib v)),
            (''code'', PInt 0),
            (''stackTrace'', PStr (formatException lib ei))]"

text \<open>
  \<^verbatim>\<open>set(record.__dict__).difference(set(self.DEFAULT_PROPERTIES))\<close>, each name with the
  value \<^verbatim>\<open>record.__dict__[key]\<close> the loop reads for it. The loop visits the names in an
  order Python does not fix; the names are distinct, so the order does not change the
  document's content.
\<close>

definition contextual_extra :: "LogRecord \<Rightarrow> (string \<times> pyval) list" where
  "contextual_extra r = filter (\<lambda>kv. fst kv \<notin> set DEFAULT_PROPERTIES) (LogRecord_dict r)"

text \<open>
  \<^verbatim>\<open>format\<close>. The test of line 58 is \<^verbatim>\<open>is not None\<close>, so every other value of
  \<^verbatim>\<open>exc_info\<close> reaches \<^verbatim>\<open>record.exc_info[1]\<close>; where that raises, \<^verbatim>\<open>format\<close> raises
  and returns no document.
\<close>

definition MongoFormatter_format :: "pylib \<Rightarrow> pyval \<Rightarrow> LogRecord \<Rightarrow> pyexn + document" where
  "MongoFormatter_format lib now r =
     (let document = standard_document lib now r in
      case (if exc_info r \<noteq> PNone
            then (case subscript1 (exc_info r) of
                    Inl e \<Rightarrow> Inl e
                  | Inr v \<Rightarrow>
                      Inr (AList.update ''exception'' (exception_document lib (exc_info r) v)
                             document))
            else Inr document) of
        Inl e \<Rightarrow> Inl e
      | Inr document \<Rightarrow>
          Inr (if length DEFAULT_PROPERTIES \<noteq> length (LogRecord_dict r)
               then (if contextual_extra r \<noteq> []
                     then fold (\<lambda>kv doc. AList.update (fst kv) (snd kv) doc)
                            (contextual_extra r) document
                     else document)
               else document))"

definition standard_keys :: "string list" where
  "standard_keys =
     [''timestamp'', ''level'', ''thread'', ''threadName'', ''message'', ''loggerName'',
      ''fileName'', ''module'', ''method'', ''lineNumber'']"

subsection \<open>The storage collaborator and the observable events\<close>

text \<open>
  What the handlers do to the outside world, in order: the calls to the collection
  (\<open>InsertOne\<close>, \<open>InsertMany\<close>), the diagnostic \<^verbatim>\<open>print\<close> of the fallback (\<open>Print e1 e2 m\<close>
  is the text built from the bulk error, the per-item error and the document), the call of
  \<^verbatim>\<open>logging.Handler.handleError\<close>, the timer's stop signal and the calls that close the
  connection. \<open>FlushInvoked\<close> is a ghost event: it marks each call of \<^verbatim>\<open>flush_to_mongo\<close>.
\<close>

datatype event =
    FlushInvoked
  | InsertOne document
  | InsertMany "document list"
  | Print pyexn pyexn document
  | HandleError LogRecord
  | TimerStop
  | Logout
  | Close

text \<open>
  The collection is an external collaborator whose writes can fail. Whether a call fails
  may depend on everything that happened before it, so the outcome is a function of the
  events so far: \<open>None\<close> is success, \<open>Some e\<close> is the exception raised. The
  collaborator is taken to leave the documents it is given as they are.
\<close>

record storage =
  insert_one_result :: "event list \<Rightarrow> document \<Rightarrow> pyexn option"
  insert_many_result :: "event list \<Rightarrow> document list \<Rightarrow> pyexn option"

definition insert_one :: "storage \<Rightarrow> document \<Rightarrow> event list \<Rightarrow> pyexn option \<times> event list" where
  "insert_one st doc tr = (insert_one_result st tr doc, tr @ [InsertOne doc])"

definition insert_many :: "storage \<Rightarrow> document list \<Rightarrow> event list \<Rightarrow> pyexn option \<times> event list" where
  "insert_many st docs tr = (insert_many_result st tr docs, tr @ [InsertMany docs])"

subsection \<open>MongoHandler\<close>

text \<open>
  The fields of the handler that \<^verbatim>\<open>emit\<close>, \<^verbatim>\<open>close\<close> and the buffered subclass read.
  \<open>connection\<close> and \<open>collection\<close> are \<open>None\<close> for Python's \<^verbatim>\<open>None\<close>; \<open>formatter\<close> is
  \<^verbatim>\<open>self.formatter\<close>, that is \<^verbatim>\<open>formatter or MongoFormatter()\<close>; it returns a document
  or raises.
\<close>

record MongoHandler =
  fail_silently :: bool
  connection :: "string option"
  collection :: "string option"
  authenticated :: bool
  formatter :: "pylib \<Rightarrow> pyval \<Rightarrow> LogRecord \<Rightarrow> pyexn + document"

definition MongoHandler_emit ::
  "pylib \<Rightarrow> storage \<Rightarrow> pyval \<Rightarrow> LogRecord \<Rightarrow> 'a MongoHandler_scheme \<times> event list
     \<Rightarrow> (pyexn + unit) \<times> 'a MongoHandler_scheme \<times> event list" where
  "MongoHandler_emit lib st now r s =
     (let h = fst s; tr = snd s in
      if collection h \<noteq> None
      then (case formatter h lib now r of
              Inl e \<Rightarrow>
                if \<not> fail_silently h then (Inr (), h, tr @ [HandleError r])
                else (Inr (), h, tr)
            | Inr doc \<Rightarrow>
                (case insert_one st doc tr of
                   (None, tr1) \<Rightarrow> (Inr (), h, tr1)
                 | (Some e, tr1) \<Rightarrow>
                     if \<not> fail_silently h then (Inr (), h, tr1 @ [HandleError r])
                     else (Inr (), h, tr1)))
      else (Inr (), h, tr))"

definition MongoHandler_close ::
  "'a MongoHandler_scheme \<times> event list \<Rightarrow> (pyexn + unit) \<times> 'a MongoHandler_scheme \<times> event list" where
  "MongoHandler_close s =
     (let h = fst s; tr = snd s;
          tr = (if authenticated h then tr @ [Logout] else tr);
          tr = (if connection h \<noteq> None then tr @ [Close] else tr)
      in (Inr (), h, tr))"

subsection \<open>BufferedMongoHandler\<close>

text \<open>
  \<open>timer_stopper\<close> says whether \<^verbatim>\<open>self._timer_stopper\<close> is set (a periodical flush
  timing was given). The timer thread itself is not modelled: the functions below are the
  handler's methods run by one thread.
\<close>

record BufferedMongoHandler = MongoHandler +
  buffer :: "document list"
  buffer_size :: int
  buffer_early_flush_level :: int
  last_record :: "LogRecord option"
  timer_stopper :: bool

definition empty_buffer :: "BufferedMongoHandler \<Rightarrow> BufferedMongoHandler" where
  "empty_buffer h = h\<lparr>buffer := []\<rparr>"

text \<open>
  The fallback loop of \<^verbatim>\<open>flush_to_mongo\<close> (lines 256 to 264). \<^verbatim>\<open>msg['levelname']\<close> is
  evaluated inside the handler of the per-item error: on a document without that key it
  raises \<^verbatim>\<open>KeyError\<close>, which no enclosing \<^verbatim>\<open>try\<close> catches, so the loop ends there.
\<close>

fun insert_one_by_one ::
  "storage \<Rightarrow> pyexn \<Rightarrow> document list \<Rightarrow> event list \<Rightarrow> (pyexn + unit) \<times> event list" where
  "insert_one_by_one st e1 [] tr = (Inr (), tr)"
| "insert_one_by_one st e1 (m # rest) tr =
     (case insert_one st m tr of
        (None, tr1) \<Rightarrow> insert_one_by_one st e1 rest tr1
      | (Some e2, tr1) \<Rightarrow>
          (case map_of m ''levelname'' of
             None \<Rightarrow> (Inl (KeyError ''levelname''), tr1)
           | Some lv \<Rightarrow>
               if lv \<noteq> PStr ''DEBUG''
               then insert_one_by_one st e1 rest (tr1 @ [Print e1 e2 m])
               else insert_one_by_one st e1 rest tr1))"

definition flush_to_mongo ::
  "storage \<Rightarrow> BufferedMongoHandler \<times> event list
     \<Rightarrow> (pyexn + unit) \<times> BufferedMongoHandler \<times> event list" where
  "flush_to_mongo st s =
     (let h = fst s; tr = snd s @ [FlushInvoked] in
      if collection h \<noteq> None \<and> length (buffer h) > 0
      then (case insert_many st (buffer h) tr of
              (None, tr1) \<Rightarrow> (Inr (), empty_buffer h, tr1)
            | (Some e1, tr1) \<Rightarrow>
                (case insert_one_by_one st e1 (buffer h) tr1 of
                   (Inl e, tr2) \<Rightarrow> (Inl e, h, tr2)
                 | (Inr u, tr2) \<Rightarrow> (Inr (), empty_buffer h, tr2)))
      else (Inr (), h, tr))"

definition BufferedMongoHandler_emit ::
  "pylib \<Rightarrow> storage \<Rightarrow> pyval \<Rightarrow> LogRecord \<Rightarrow> BufferedMongoHandler \<times> event list
     \<Rightarrow> (pyexn + unit) \<times> BufferedMongoHandler \<times> event list" where
  "BufferedMongoHandler_emit lib st now r s =
     (let h = fst s; tr = snd s;
          h = h\<lparr>last_record := Some r\<rparr>
      in case formatter h lib now r of
           Inl e \<Rightarrow> (Inl e, h, tr)
         | Inr doc \<Rightarrow>
             (let h = h\<lparr>buffer := buffer h @ [doc]\<rparr>
              in if int (length (buffer h)) \<ge> buffer_size h
                      \<or> levelno r \<ge> buffer_early_flush_level h
                 then flush_to_mongo st (h, tr)
                 else (Inr (), h, tr)))"

definition destroy ::
  "storage \<Rightarrow> BufferedMongoHandler \<times> event list
     \<Rightarrow> (pyexn + unit) \<times> BufferedMongoHandler \<times> event list" where
  "destroy st s =
     (let h = fst s; tr = snd s;
          tr = (if timer_stopper h then tr @ [TimerStop] else tr)
      in case flush_to_mongo st (h, tr) of
           (Inl e, s1) \<Rightarrow> (Inl e, s1)
         | (Inr u, s1) \<Rightarrow> MongoHandler_close s1)"

text \<open>
  The state \<^verbatim>\<open>BufferedMongoHandler.__init__\<close> leaves with the default formatter. \<open>coll\<close>
  is what \<^verbatim>\<open>_connect\<close> bound: \<open>None\<close> after a connection failure with
  \<^verbatim>\<open>fail_silently\<close>; \<open>timing\<close> is whether a periodical flush timing was given.
\<close>

definition new_BufferedMongoHandler ::
  "string option \<Rightarrow> bool \<Rightarrow> int \<Rightarrow> bool \<Rightarrow> int \<Rightarrow> BufferedMongoHandler" where
  "new_BufferedMongoHandler coll fs bsize timing early =
     \<lparr> fail_silently = fs, connection = Some ''MongoClient'', collection = coll,
       authenticated = False, formatter = MongoFormatter_format,
       buffer = [], buffer_size = bsize, buffer_early_flush_level = early,
       last_record = None, timer_stopper = timing \<rparr>"

text \<open>
  A caller that emits the records of a list one after the other, each formatted at its
  own instant; an exception that leaves \<^verbatim>\<open>emit\<close> ends the caller's loop.
\<close>

fun emit_all ::
  "pylib \<Rightarrow> storage \<Rightarrow> (pyval \<times> LogRecord) list \<Rightarrow> BufferedMongoHandler \<times> event list
     \<Rightarrow> (pyexn + unit) \<times> BufferedMongoHandler \<times> event list" where
  "emit_all lib st [] s = (Inr (), s)"
| "emit_all lib st (nr # rs) s =
     (case BufferedMongoHandler_emit lib st (fst nr) (snd nr) s of
        (Inl e, s1) \<Rightarrow> (Inl e, s1)
      | (Inr u, s1) \<Rightarrow> emit_all lib st rs s1)"

subsection \<open>Concrete inputs\<close>

definition lib0 :: pylib where
  "lib0 = \<lparr> getMessage = (\<lambda>r. case msg r of PStr s \<Rightarrow> s | _ \<Rightarrow> ''''),
            formatException = (\<lambda>ei. ''Traceback (most recent call last): ...''),
            py_str = (\<lambda>v. case v of PStr s \<Rightarrow> s | _ \<Rightarrow> '''') \<rparr>"

definition mk_record :: "string \<Rightarrow> int \<Rightarrow> string \<Rightarrow> LogRecord" where
  "mk_record lvl lvlno s =
     \<lparr> name = ''app'', msg = PStr s, args = PTuple [], levelname = lvl, levelno = lvlno,
       pathname = ''/srv/app.py'', filename = ''app.py'', module = ''app'', exc_info = PNone,
       exc_text = PNone, stack_info = PNone, lineno = 7, funcName = ''main'',
       created = PObj ''float'', msecs = PObj ''float'', relativeCreated = PObj ''float'',
       thread = PInt 1, threadName = PStr ''MainThread'', processName = PStr ''MainProcess'',
       process = PInt 4242, extra = [] \<rparr>"

text \<open>Records: one with two extras, one with an exception, one logged with
  \<^verbatim>\<open>exc_info=False\<close>, and two whose extra has the name of a document key.\<close>

definition rec_extra :: LogRecord where
  "rec_extra = (mk_record ''INFO'' 20 ''first'')
     \<lparr>extra := [(''user'', PStr ''alice''), (''request_id'', PInt 17)]\<rparr>"

definition rec_exc :: LogRecord where
  "rec_exc = (mk_record ''ERROR'' 40 ''failed'')
     \<lparr>exc_info := PTuple [PObj ''Exception'', PStr ''exc1'', PObj ''traceback'']\<rparr>"

definition rec_exc_false :: LogRecord where
  "rec_exc_false = (mk_record ''INFO'' 20 ''first'')\<lparr>exc_info := PBool False\<rparr>"

definition rec_shadow_level :: LogRecord where
  "rec_shadow_level = (mk_record ''INFO'' 20 ''first'')\<lparr>extra := [(''level'', PStr ''boom'')]\<rparr>"

definition rec_shadow_exception :: LogRecord where
  "rec_shadow_exception = rec_exc\<lparr>extra := [(''exception'', PStr ''shadow'')]\<rparr>"


definition storage_down :: storage where
  "storage_down =
     \<lparr> insert_one_result = (\<lambda>tr doc. Some (WriteError ''down'')),
       insert_many_result = (\<lambda>tr docs. Some (WriteError ''down'')) \<rparr>"

text \<open>
  A collaborator whose first bulk write fails and whose later ones succeed, and that
  refuses the single document whose message is \<^verbatim>\<open>second\<close>.
\<close>

definition storage_flaky :: storage where
  "storage_flaky =
     \<lparr> insert_one_result =
         (\<lambda>tr doc. if map_of doc ''message'' = Some (PStr ''second'')
                    then Some (WriteError ''rejected'') else None),
       insert_many_result =
         (\<lambda>tr docs. if list_ex (\<lambda>ev. case ev of InsertMany ds \<Rightarrow> True | _ \<Rightarrow> False) tr
                     then None else Some (WriteError ''bulk failed'')) \<rparr>"

text \<open>
  Two records logged at level INFO, the documents the default formatter makes of them
  (\<open>format_two_records\<close> below), and the handler (capacity 100, early flush at CRITICAL, timer set) after both were emitted.
\<close>

definition two_records :: "(pyval \<times> LogRecord) list" where
  "two_records =
     [(PDatetime 1, mk_record ''INFO'' 20 ''first''), (PDatetime 2, mk_record ''INFO'' 20 ''second'')]"

definition doc_first :: document where
  "doc_first = standard_document lib0 (PDatetime 1) (mk_record ''INFO'' 20 ''first'')"

definition doc_second :: document where
  "doc_second = standard_document lib0 (PDatetime 2) (mk_record ''INFO'' 20 ''second'')"

definition handler_two :: BufferedMongoHandler where
  "handler_two = (new_BufferedMongoHandler (Some ''logs'') False 100 True 50)
     \<lparr>buffer := [doc_first, doc_second], last_record := Some (mk_record ''INFO'' 20 ''second'')\<rparr>"

text \<open>What the first of two \<^verbatim>\<open>destroy\<close> calls on that handler does to a flaky collection.\<close>

definition trace_first_destroy :: "event list" where
  "trace_first_destroy =
     [TimerStop, FlushInvoked, InsertMany [doc_first, doc_second],
      InsertOne doc_first, InsertOne doc_second]"




subsection \<open>Facts about the formatter\<close>

lemma DEFAULT_PROPERTIES_eq: "DEFAULT_PROPERTIES = std_attrs"
  by (simp add: DEFAULT_PROPERTIES_def LogRecord_dict_def empty_LogRecord_def std_attrs_def)

lemma length_DEFAULT_PROPERTIES: "length DEFAULT_PROPERTIES = 20"
  by (simp add: DEFAULT_PROPERTIES_eq std_attrs_def)

lemma length_LogRecord_dict: "length (LogRecord_dict r) = 20 + length (extra r)"
  by (simp add: LogRecord_dict_def)

lemma contextual_extra_wf:
  assumes "wf_record r"
  shows "contextual_extra r = extra r"
proof -
  have "filter (\<lambda>kv. fst kv \<notin> set std_attrs) (extra r) = extra r"
    using assms by (auto simp: wf_record_def list_all_iff filter_id_conv)
  then show ?thesis
    by (simp add: contextual_extra_def DEFAULT_PROPERTIES_eq LogRecord_dict_def std_attrs_def)
qed

lemma map_of_fold_update:
  "map_of (fold (\<lambda>kv doc. AList.update (fst kv) (snd kv) doc) xs d) = map_of d ++ map_of (rev xs)"
  by (induction xs arbitrary: d)
    (auto simp: update_conv' fun_eq_iff map_add_def split: option.splits)

lemma keys_fold_update:
  "fst ` set (fold (\<lambda>kv doc. AList.update (fst kv) (snd kv) doc) xs d) = fst ` set d \<union> fst ` set xs"
  by (induction xs arbitrary: d) (auto simp: dom_update)

lemma contextual_extra_keys:
  "fst ` set (contextual_extra r) = fst ` set (extra r) - set DEFAULT_PROPERTIES"
  by (auto simp: contextual_extra_def DEFAULT_PROPERTIES_eq LogRecord_dict_def std_attrs_def)

text \<open>
  The two guards before the loop only skip a loop that has nothing to copy: the extras
  are copied over the document that the exception step leaves.
\<close>

lemma extras_step:
  "(if length DEFAULT_PROPERTIES \<noteq> length (LogRecord_dict r)
    then (if contextual_extra r \<noteq> []
          then fold (\<lambda>kv doc. AList.update (fst kv) (snd kv) doc) (contextual_extra r) document
          else document)
    else document)
   = fold (\<lambda>kv doc. AList.update (fst kv) (snd kv) doc) (contextual_extra r) document"
proof (cases "extra r = []")
  case True
  then have "contextual_extra r = []"
    by (simp add: contextual_extra_def DEFAULT_PROPERTIES_eq LogRecord_dict_def std_attrs_def)
  then show ?thesis by simp
next
  case False
  then show ?thesis
    by (simp add: length_DEFAULT_PROPERTIES length_LogRecord_dict)
qed

text \<open>
  When \<^verbatim>\<open>format\<close> returns: \<^verbatim>\<open>exc_info\<close> is \<^verbatim>\<open>None\<close> and the extras are copied over the
  standard document, or \<^verbatim>\<open>exc_info[1]\<close> has a value and they are copied over the
  standard document with the exception object. Otherwise it raises what \<^verbatim>\<open>exc_info[1]\<close>
  raises.
\<close>

lemma format_None:
  assumes "exc_info r = PNone"
  shows "MongoFormatter_format lib now r =
           Inr (fold (\<lambda>kv doc. AList.update (fst kv) (snd kv) doc) (contextual_extra r)
                  (standard_document lib now r))"
  using assms by (simp add: MongoFormatter_format_def Let_def extras_step)

lemma format_subscript:
  assumes "exc_info r \<noteq> PNone" and "subscript1 (exc_info r) = Inr v"
  shows "MongoFormatter_format lib now r =
           Inr (fold (\<lambda>kv doc. AList.update (fst kv) (snd kv) doc) (contextual_extra r)
                  (AList.update ''exception'' (exception_document lib (exc_info r) v)
                     (standard_document lib now r)))"
  using assms by (simp add: MongoFormatter_format_def Let_def extras_step)

lemma format_raises:
  assumes "exc_info r \<noteq> PNone" and "subscript1 (exc_info r) = Inl e"
  shows "MongoFormatter_format lib now r = Inl e"
  using assms by (simp add: MongoFormatter_format_def Let_def)

lemma format_Inr_base:
  assumes "MongoFormatter_format lib now r = Inr doc"
  shows "\<exists>base.
           doc = fold (\<lambda>kv doc. AList.update (fst kv) (snd kv) doc) (contextual_extra r) base
         \<and> fst ` set base \<subseteq> insert ''exception'' (fst ` set (standard_document lib now r))
         \<and> (\<forall>k. k \<noteq> ''exception'' \<longrightarrow>
               map_of base k = map_of (standard_document lib now r) k)"
proof (cases "exc_info r = PNone")
  case True
  have "doc = fold (\<lambda>kv doc. AList.update (fst kv) (snd kv) doc) (contextual_extra r)
          (standard_document lib now r)"
    using assms format_None [OF True, of lib now] by simp
  then show ?thesis by blast
next
  case False
  show ?thesis
  proof (cases "subscript1 (exc_info r)")
    case (Inl e)
    with assms format_raises [OF False Inl, of lib now] show ?thesis by simp
  next
    case (Inr v)
    let ?base = "AList.update ''exception'' (exception_document lib (exc_info r) v)
        (standard_document lib now r)"
    have "doc = fold (\<lambda>kv doc. AList.update (fst kv) (snd kv) doc) (contextual_extra r) ?base"
      using assms format_subscript [OF False Inr, of lib now] by simp
    moreover have "fst ` set ?base \<subseteq> insert ''exception'' (fst ` set (standard_document lib now r))"
      by (simp add: dom_update)
    moreover have "\<forall>k. k \<noteq> ''exception'' \<longrightarrow>
        map_of ?base k = map_of (standard_document lib now r) k"
      by (simp add: update_conv')
    ultimately show ?thesis by blast
  qed
qed

text \<open>
  No document of the default formatter has the key \<^verbatim>\<open>levelname\<close>: the level is stored
  under \<^verbatim>\<open>level\<close>, and \<^verbatim>\<open>levelname\<close> is a constructor attribute, so never an extra.
\<close>

lemma format_no_levelname:
  assumes "MongoFormatter_format lib now r = Inr doc"
  shows "map_of doc ''levelname'' = None"
proof -
  from format_Inr_base [OF assms] obtain base where
    d: "doc = fold (\<lambda>kv doc. AList.update (fst kv) (snd kv) doc) (contextual_extra r) base"
    and b: "fst ` set base \<subseteq> insert ''exception'' (fst ` set (standard_document lib now r))"
    by blast
  have "''levelname'' \<notin> fst ` set base"
    using b by (auto simp: standard_document_def)
  then have "''levelname'' \<notin> fst ` set doc"
    by (simp add: d keys_fold_update contextual_extra_keys DEFAULT_PROPERTIES_eq std_attrs_def)
  then show ?thesis by (simp add: map_of_eq_None_iff)
qed

lemma format_wf_lookup:
  assumes "wf_record r" and "MongoFormatter_format lib now r = Inr doc"
    and "k \<noteq> ''exception''"
  shows "map_of doc k =
           (case map_of (extra r) k of
              Some v \<Rightarrow> Some v
            | None \<Rightarrow> map_of (standard_document lib now r) k)"
proof -
  from format_Inr_base [OF assms(2)] obtain base where
    d: "doc = fold (\<lambda>kv doc. AList.update (fst kv) (snd kv) doc) (contextual_extra r) base"
    and b: "\<And>k. k \<noteq> ''exception'' \<Longrightarrow> map_of base k = map_of (standard_document lib now r) k"
    by blast
  have di: "distinct (map fst (rev (extra r)))"
    using assms(1) by (simp add: wf_record_def rev_map [symmetric])
  have "map_of (rev (extra r)) k = map_of (extra r) k"
  proof (cases "map_of (extra r) k")
    case None
    then have "map_of (rev (extra r)) k = None" by (simp add: map_of_eq_None_iff)
    with None show ?thesis by simp
  next
    case (Some v)
    then have "(k, v) \<in> set (rev (extra r))" by (auto dest: map_of_SomeD)
    with di Some show ?thesis by simp
  qed
  then show ?thesis
    using b [OF assms(3)]
    by (simp add: d map_of_fold_update contextual_extra_wf [OF assms(1)] map_add_def
        split: option.splits)
qed

lemma format_wf_extra:
  assumes "wf_record r" and "MongoFormatter_format lib now r = Inr doc"
    and "kv \<in> set (extra r)"
  shows "map_of doc (fst kv) = Some (snd kv)"
proof -
  from format_Inr_base [OF assms(2)] obtain base where
    d: "doc = fold (\<lambda>kv doc. AList.update (fst kv) (snd kv) doc) (contextual_extra r) base"
    by blast
  have "distinct (map fst (rev (extra r)))"
    using assms(1) by (simp add: wf_record_def rev_map [symmetric])
  moreover have "(fst kv, snd kv) \<in> set (rev (extra r))" using assms(3) by simp
  ultimately have "map_of (rev (extra r)) (fst kv) = Some (snd kv)"
    by (rule map_of_is_SomeI)
  then show ?thesis
    by (simp add: d map_of_fold_update contextual_extra_wf [OF assms(1)])
qed

text \<open>
  A record whose \<^verbatim>\<open>exc_info\<close> is \<^verbatim>\<open>None\<close> and that has no extras is formatted into the
  standard document: exactly the ten keys, each once.
\<close>

lemma format_plain_record:
  assumes "exc_info r = PNone" and "extra r = []"
  shows "MongoFormatter_format lib now r = Inr (standard_document lib now r)"
    and "set (map fst (standard_document lib now r)) =
           {''timestamp'', ''level'', ''thread'', ''threadName'', ''message'', ''loggerName'',
            ''fileName'', ''module'', ''method'', ''lineNumber''}"
    and "distinct (map fst (standard_document lib now r))"
  using assms
  by (simp_all add: MongoFormatter_format_def length_DEFAULT_PROPERTIES length_LogRecord_dict
      standard_document_def)


lemma format_two_records:
  "MongoFormatter_format lib0 (PDatetime 1) (mk_record ''INFO'' 20 ''first'') = Inr doc_first"
  "MongoFormatter_format lib0 (PDatetime 2) (mk_record ''INFO'' 20 ''second'') = Inr doc_second"
  "MongoFormatter_format lib0 (PDatetime (Suc 0)) (mk_record ''INFO'' 20 ''first'') = Inr doc_first"
  by (simp_all add: doc_first_def doc_second_def format_plain_record(1) mk_record_def)

text \<open>\<^verbatim>\<open>format\<close> returns exactly when \<^verbatim>\<open>exc_info\<close> is \<^verbatim>\<open>None\<close> or has an item 1.\<close>

lemma format_returns_iff:
  "(\<exists>doc. MongoFormatter_format lib now r = Inr doc)
     \<longleftrightarrow> (exc_info r = PNone \<or> \<not> isl (subscript1 (exc_info r)))"
  by (cases "subscript1 (exc_info r)") (auto simp: MongoFormatter_format_def Let_def)

subsection \<open>The formatter's documents\<close>

text \<open>
  C4, as the code has it. A record with extra attributes (distinct names, none of them a
  record attribute name) whose \<^verbatim>\<open>exc_info\<close> is \<^verbatim>\<open>None\<close> or has an item 1 is turned by
  \<^verbatim>\<open>format\<close> into a document that holds every extra under its own name with its value.
  A standard document key keeps the value of the standard document when no extra has its
  name, and holds the extra's value when one has: the extras are the attributes that are
  not \<^emph>\<open>record\<close> attribute names, and of the ten document keys only thread, threadName and
  module are record attribute names, so only these three can never be the name of an extra.
\<close>

theorem format_extras_and_standard_keys:
  assumes "wf_record r" and "exc_info r = PNone \<or> \<not> isl (subscript1 (exc_info r))"
  shows "\<exists>doc. MongoFormatter_format lib now r = Inr doc
       \<and> (\<forall>kv \<in> set (extra r). map_of doc (fst kv) = Some (snd kv))
       \<and> (\<forall>k \<in> set standard_keys. k \<notin> fst ` set (extra r) \<longrightarrow>
            map_of doc k = map_of (standard_document lib now r) k)
       \<and> (\<forall>k \<in> set standard_keys. k \<in> fst ` set (extra r) \<longrightarrow>
            map_of doc k = map_of (extra r) k)
       \<and> (\<forall>k \<in> {''thread'', ''threadName'', ''module''}. k \<notin> fst ` set (extra r))"
proof -
  from assms(2) obtain doc where f: "MongoFormatter_format lib now r = Inr doc"
    using format_returns_iff [of lib now r] by blast
  have "\<forall>kv \<in> set (extra r). map_of doc (fst kv) = Some (snd kv)"
    using format_wf_extra [OF assms(1) f] by blast
  moreover have "\<forall>k \<in> set standard_keys. k \<notin> fst ` set (extra r) \<longrightarrow>
            map_of doc k = map_of (standard_document lib now r) k"
  proof (intro ballI impI)
    fix k assume "k \<in> set standard_keys" and "k \<notin> fst ` set (extra r)"
    then have n: "map_of (extra r) k = None" and "k \<noteq> ''exception''"
      by (auto simp: map_of_eq_None_iff standard_keys_def)
    then show "map_of doc k = map_of (standard_document lib now r) k"
      by (simp add: format_wf_lookup [OF assms(1) f])
  qed
  moreover have "\<forall>k \<in> set standard_keys. k \<in> fst ` set (extra r) \<longrightarrow>
            map_of doc k = map_of (extra r) k"
  proof (intro ballI impI)
    fix k assume "k \<in> set standard_keys" and "k \<in> fst ` set (extra r)"
    then have ne: "k \<noteq> ''exception''" and "map_of (extra r) k \<noteq> None"
      by (auto simp: map_of_eq_None_iff standard_keys_def)
    then obtain v where "map_of (extra r) k = Some v" by blast
    then show "map_of doc k = map_of (extra r) k"
      using ne by (simp add: format_wf_lookup [OF assms(1) f])
  qed
  moreover have "\<forall>k \<in> {''thread'', ''threadName'', ''module''}. k \<notin> fst ` set (extra r)"
    using assms(1) by (auto simp: wf_record_def list_all_iff std_attrs_def)
  ultimately show ?thesis using f by blast
qed

theorem format_extras_and_standard_keys_witness:
  "wf_record rec_extra \<and> exc_info rec_extra = PNone
   \<and> (\<exists>doc. MongoFormatter_format lib0 (PDatetime 0) rec_extra = Inr doc
        \<and> map_of doc ''user'' = Some (PStr ''alice'')
        \<and> map_of doc ''request_id'' = Some (PInt 17)
        \<and> map_of doc ''level'' = Some (PStr ''INFO''))"
proof -
  have w: "wf_record rec_extra"
    by (simp add: wf_record_def rec_extra_def mk_record_def std_attrs_def)
  have n: "exc_info rec_extra = PNone" by (simp add: rec_extra_def mk_record_def)
  then have c: "exc_info rec_extra = PNone \<or> \<not> isl (subscript1 (exc_info rec_extra))" by simp
  have e: "extra rec_extra = [(''user'', PStr ''alice''), (''request_id'', PInt 17)]"
    by (simp add: rec_extra_def)
  have s: "map_of (standard_document lib0 (PDatetime 0) rec_extra) ''level'' = Some (PStr ''INFO'')"
    by (simp add: standard_document_def rec_extra_def mk_record_def)
  have "\<exists>doc. MongoFormatter_format lib0 (PDatetime 0) rec_extra = Inr doc
        \<and> map_of doc ''user'' = Some (PStr ''alice'')
        \<and> map_of doc ''request_id'' = Some (PInt 17)
        \<and> map_of doc ''level'' = Some (PStr ''INFO'')"
    using format_extras_and_standard_keys [OF w c, of lib0 "PDatetime 0"] s
    by (auto simp: e standard_keys_def)
  with w n show ?thesis by blast
qed

text \<open>
  C4 as stated fails: a record logged at level INFO with the extra attribute
  \<^verbatim>\<open>level = 'boom'\<close> is formatted into a document whose \<^verbatim>\<open>level\<close> is \<^verbatim>\<open>'boom'\<close>.
\<close>

theorem extra_shadows_standard_key:
  "extra rec_shadow_level = [(''level'', PStr ''boom'')]
   \<and> levelname rec_shadow_level = ''INFO''
   \<and> map_of (standard_document lib0 (PDatetime 0) rec_shadow_level) ''level'' = Some (PStr ''INFO'')
   \<and> (\<exists>doc. MongoFormatter_format lib0 (PDatetime 0) rec_shadow_level = Inr doc
        \<and> map_of doc ''level'' = Some (PStr ''boom''))"
  by (simp add: rec_shadow_level_def mk_record_def MongoFormatter_format_def
      length_DEFAULT_PROPERTIES length_LogRecord_dict contextual_extra_def DEFAULT_PROPERTIES_eq
      std_attrs_def LogRecord_dict_def standard_document_def)

text \<open>
  C5 does not hold of the code. A record logged with \<^verbatim>\<open>exc_info=False\<close> has no associated
  exception and no extra attributes, yet \<^verbatim>\<open>False is not None\<close>, so \<^verbatim>\<open>format\<close> evaluates
  \<^verbatim>\<open>record.exc_info[1]\<close>, raises \<^verbatim>\<open>TypeError\<close> and returns no document.
\<close>

theorem format_raises_on_false_exc_info:
  "exc_info rec_exc_false = PBool False \<and> extra rec_exc_false = []
   \<and> MongoFormatter_format lib0 (PDatetime 0) rec_exc_false
       = Inl (TypeError ''object is not subscriptable'')"
  by (simp add: rec_exc_false_def mk_record_def MongoFormatter_format_def)

text \<open>
  C6, as the code has it. For a record with an associated exception and no extra attribute
  named \<^verbatim>\<open>exception\<close>, the document's \<^verbatim>\<open>exception\<close> is a nested object whose
  \<^verbatim>\<open>message\<close> is the string form of the exception value and whose \<^verbatim>\<open>code\<close> is 0.
\<close>

theorem format_exception_object:
  assumes "exc_info r = PTuple [t, v, tb]" and "''exception'' \<notin> fst ` set (extra r)"
  shows "\<exists>doc d. MongoFormatter_format lib now r = Inr doc
            \<and> map_of doc ''exception'' = Some (PDict d)
            \<and> map_of d ''message'' = Some (PStr (py_str lib v))
            \<and> map_of d ''code'' = Some (PInt 0)"
proof -
  have n: "exc_info r \<noteq> PNone" and s: "subscript1 (exc_info r) = Inr v"
    using assms(1) by simp_all
  have "map_of (rev (contextual_extra r)) ''exception'' = None"
    using assms(2) by (simp add: map_of_eq_None_iff contextual_extra_keys)
  then have "map_of (fold (\<lambda>kv doc. AList.update (fst kv) (snd kv) doc) (contextual_extra r)
                  (AList.update ''exception'' (exception_document lib (exc_info r) v)
                     (standard_document lib now r))) ''exception''
             = Some (exception_document lib (exc_info r) v)"
    by (simp add: map_of_fold_update map_add_def update_conv')
  then show ?thesis
    using format_subscript [OF n s, of lib now] by (simp add: exception_document_def)
qed

theorem format_exception_object_witness:
  "exc_info rec_exc = PTuple [PObj ''Exception'', PStr ''exc1'', PObj ''traceback'']
   \<and> ''exception'' \<notin> fst ` set (extra rec_exc)
   \<and> (\<exists>doc d. MongoFormatter_format lib0 (PDatetime 0) rec_exc = Inr doc
            \<and> map_of doc ''exception'' = Some (PDict d)
            \<and> map_of d ''message'' = Some (PStr ''exc1'')
            \<and> map_of d ''code'' = Some (PInt 0))"
proof -
  have a: "exc_info rec_exc = PTuple [PObj ''Exception'', PStr ''exc1'', PObj ''traceback'']"
    by (simp add: rec_exc_def)
  have b: "''exception'' \<notin> fst ` set (extra rec_exc)"
    by (simp add: rec_exc_def mk_record_def)
  show ?thesis
    using format_exception_object [OF a b, of lib0 "PDatetime 0"] a b by (simp add: lib0_def)
qed

text \<open>
  C6 as stated fails: a record with an associated exception and the extra attribute
  \<^verbatim>\<open>exception = 'shadow'\<close> is formatted into a document whose \<^verbatim>\<open>exception\<close> is the
  string \<^verbatim>\<open>'shadow'\<close>, not a nested object.
\<close>

theorem extra_shadows_exception:
  "exc_info rec_shadow_exception = PTuple [PObj ''Exception'', PStr ''exc1'', PObj ''traceback'']
   \<and> (\<exists>doc. MongoFormatter_format lib0 (PDatetime 0) rec_shadow_exception = Inr doc
        \<and> map_of doc ''exception'' = Some (PStr ''shadow''))"
  by (simp add: rec_shadow_exception_def rec_exc_def mk_record_def MongoFormatter_format_def
      length_DEFAULT_PROPERTIES length_LogRecord_dict contextual_extra_def DEFAULT_PROPERTIES_eq
      std_attrs_def LogRecord_dict_def standard_document_def)

subsection \<open>Facts about the buffered handler\<close>





text \<open>When the formatter raises, so does \<^verbatim>\<open>emit\<close>, and nothing is appended.\<close>

lemma emit_format_raises:
  assumes "formatter h lib now r = Inl e"
  shows "BufferedMongoHandler_emit lib st now r (h, tr) = (Inl e, h\<lparr>last_record := Some r\<rparr>, tr)"
  using assms by (simp add: BufferedMongoHandler_emit_def Let_def)






text \<open>The unbuffered handler's \<^verbatim>\<open>emit\<close> always returns normally.\<close>

lemma MongoHandler_emit_returns: "fst (MongoHandler_emit lib st now r s) = Inr ()"
  by (simp add: MongoHandler_emit_def Let_def insert_one_def split: option.splits sum.splits)

subsection \<open>The flush triggers\<close>








subsection \<open>The fallback on documents of the default formatter\<close>

text \<open>
  The fallback reads \<^verbatim>\<open>msg['levelname']\<close>, a key that no document of \<^verbatim>\<open>MongoFormatter\<close>
  returns has (\<open>format_no_levelname\<close>). The theorems of this section run the code on such
  documents.
\<close>

lemma doc_no_levelname:
  "map_of doc_first ''levelname'' = None" "map_of doc_second ''levelname'' = None"
  by (rule format_no_levelname [OF format_two_records(1)])
    (rule format_no_levelname [OF format_two_records(2)])

lemma doc_message:
  "map_of doc_first ''message'' = Some (PStr ''first'')"
  "map_of doc_second ''message'' = Some (PStr ''second'')"
  by (simp_all add: doc_first_def doc_second_def mk_record_def standard_document_def lib0_def)

text \<open>
  On documents without the key, whatever the collection does, the fallback prints nothing:
  it tries documents up to the first one refused and raises \<^verbatim>\<open>KeyError\<close> there.
\<close>

lemma insert_one_by_one_no_levelname:
  assumes "list_all (\<lambda>m. map_of m ''levelname'' = None) ms"
    and "insert_one_by_one st e1 ms tr = (res, tr')"
  shows "(res = Inr () \<or> res = Inl (KeyError ''levelname''))
       \<and> (\<exists>new. tr' = tr @ new \<and> list_all (\<lambda>ev. case ev of InsertOne d \<Rightarrow> True | _ \<Rightarrow> False) new)"
  using assms
proof (induction ms arbitrary: tr)
  case Nil
  then show ?case by simp
next
  case (Cons m ms)
  then have n: "map_of m ''levelname'' = None" and rest: "list_all (\<lambda>m. map_of m ''levelname'' = None) ms"
    by simp_all
  show ?case
  proof (cases "insert_one_result st tr m")
    case None
    with Cons.prems(2) have "insert_one_by_one st e1 ms (tr @ [InsertOne m]) = (res, tr')"
      by (simp add: insert_one_def)
    from Cons.IH [OF rest this] show ?thesis by auto
  next
    case (Some e2)
    with n Cons.prems(2) have "res = Inl (KeyError ''levelname'')" and "tr' = tr @ [InsertOne m]"
      by (simp_all add: insert_one_def)
    then show ?thesis by simp
  qed
qed

text \<open>
  On documents that do have the key (a custom formatter's), the fallback never raises and
  the flush of a bound handler always leaves an empty buffer.
\<close>

lemma insert_one_by_one_with_levelname:
  assumes "list_all (\<lambda>m. map_of m ''levelname'' \<noteq> None) ms"
  shows "fst (insert_one_by_one st e1 ms tr) = Inr ()"
  using assms
  by (induction ms arbitrary: tr) (auto simp: insert_one_def split: option.splits)

lemma flush_with_levelname_empties:
  assumes "collection h \<noteq> None" and "list_all (\<lambda>m. map_of m ''levelname'' \<noteq> None) (buffer h)"
  shows "\<exists>tr'. flush_to_mongo st (h, tr) = (Inr (), empty_buffer h, tr')"
proof (cases "buffer h = []")
  case True
  then show ?thesis by (simp add: flush_to_mongo_def empty_buffer_def)
next
  case False
  show ?thesis
  proof (cases "insert_many_result st (tr @ [FlushInvoked]) (buffer h)")
    case None
    with False assms(1) show ?thesis by (simp add: flush_to_mongo_def insert_many_def)
  next
    case (Some e1)
    have "fst (insert_one_by_one st e1 (buffer h) (tr @ [FlushInvoked] @ [InsertMany (buffer h)])) = Inr ()"
      by (rule insert_one_by_one_with_levelname [OF assms(2)])
    with Some False assms(1) show ?thesis
      by (auto simp: flush_to_mongo_def insert_many_def split: prod.splits sum.splits)
  qed
qed

text \<open>The handler \<open>handler_two\<close> is what two emits leave of a fresh handler.\<close>

lemma handler_two_reachable:
  "emit_all lib0 st two_records (new_BufferedMongoHandler (Some ''logs'') False 100 True 50, [])
     = (Inr (), handler_two, [])"
proof -
  have "levelno (mk_record ''INFO'' 20 ''first'') = 20" "levelno (mk_record ''INFO'' 20 ''second'') = 20"
    by (simp_all add: mk_record_def)
  then show ?thesis
    by (simp add: two_records_def handler_two_def new_BufferedMongoHandler_def
        BufferedMongoHandler_emit_def Let_def format_two_records)
qed

text \<open>
  C1 does not hold of the code. The collection refuses every write; the buffer holds two
  INFO documents. The flush tries the bulk write, then the first document alone, and then
  raises \<^verbatim>\<open>KeyError('levelname')\<close>: the second document is never attempted and nothing
  is printed.
\<close>

theorem fallback_stops_at_first_failure:
  "flush_to_mongo storage_down (handler_two, []) =
     (Inl (KeyError ''levelname''), handler_two,
      [FlushInvoked, InsertMany [doc_first, doc_second], InsertOne doc_first])"
  by (simp add: flush_to_mongo_def handler_two_def new_BufferedMongoHandler_def insert_many_def
      insert_one_def storage_down_def doc_no_levelname)

text \<open>
  C2 does not hold of the code. The bulk write fails, the first document is written alone
  and the second is refused: the flush raises \<^verbatim>\<open>KeyError('levelname')\<close> before it
  reaches \<^verbatim>\<open>empty_buffer\<close>, and both documents stay in the buffer.
\<close>

theorem failed_flush_keeps_buffer:
  "flush_to_mongo storage_flaky (handler_two, []) =
     (Inl (KeyError ''levelname''), handler_two,
      [FlushInvoked, InsertMany [doc_first, doc_second], InsertOne doc_first, InsertOne doc_second])
   \<and> buffer handler_two = [doc_first, doc_second]"
  by (simp add: flush_to_mongo_def handler_two_def new_BufferedMongoHandler_def insert_many_def
      insert_one_def storage_flaky_def doc_no_levelname doc_message)

text \<open>
  C3 does not hold of the code for the buffered handler. With capacity 1 and a collection
  that refuses every write, emitting one INFO record raises \<^verbatim>\<open>KeyError('levelname')\<close>
  to the caller of \<^verbatim>\<open>emit\<close>.
\<close>

theorem buffered_emit_raises:
  "BufferedMongoHandler_emit lib0 storage_down (PDatetime 1) (mk_record ''INFO'' 20 ''first'')
     (new_BufferedMongoHandler (Some ''logs'') False 1 False 50, [])
   = (Inl (KeyError ''levelname''),
      (new_BufferedMongoHandler (Some ''logs'') False 1 False 50)
        \<lparr>last_record := Some (mk_record ''INFO'' 20 ''first''), buffer := [doc_first]\<rparr>,
      [FlushInvoked, InsertMany [doc_first], InsertOne doc_first])"
  by (simp add: BufferedMongoHandler_emit_def Let_def flush_to_mongo_def new_BufferedMongoHandler_def
      insert_many_def insert_one_def storage_down_def format_two_records doc_no_levelname)

text \<open>
  C9 does not hold of the code. On a collection whose first bulk write fails and that
  refuses the second document, the first \<^verbatim>\<open>destroy\<close> writes the first document alone and
  raises \<^verbatim>\<open>KeyError('levelname')\<close> with the buffer kept; the second \<^verbatim>\<open>destroy\<close> then
  writes the whole buffer in bulk, the first document for the second time.
\<close>

theorem destroy_twice_raises_and_rewrites:
  "destroy storage_flaky (handler_two, []) =
     (Inl (KeyError ''levelname''), handler_two, trace_first_destroy)
   \<and> insert_one_result storage_flaky [TimerStop, FlushInvoked, InsertMany [doc_first, doc_second]]
        doc_first = None
   \<and> destroy storage_flaky (handler_two, trace_first_destroy) =
       (Inr (), empty_buffer handler_two,
        trace_first_destroy @ [TimerStop, FlushInvoked, InsertMany [doc_first, doc_second], Close])
   \<and> insert_many_result storage_flaky (trace_first_destroy @ [TimerStop, FlushInvoked])
        [doc_first, doc_second] = None"
  by (simp add: destroy_def Let_def flush_to_mongo_def handler_two_def new_BufferedMongoHandler_def
      insert_many_def insert_one_def storage_flaky_def doc_no_levelname doc_message
      trace_first_destroy_def MongoHandler_close_def empty_buffer_def)

end
